theory Spec2Isabelle
  imports Complex_Main
begin

section \<open>JavaScript numbers and values\<close>

text \<open>
  The calculator is TypeScript running on JavaScript numbers. A number is modelled as an
  exact rational or one of the three values that are not finite: \<open>NaN\<close>, \<open>+Infinity\<close>
  and \<open>-Infinity\<close>. Finite arithmetic is exact: the rounding of IEEE doubles, overflow to
  infinity and the sign of zero are not part of the model (a zero divisor counts as \<open>+0\<close>).
\<close>

datatype jsnum = NaN | PInf | NInf | Fin rat

fun js_mul :: "jsnum \<Rightarrow> jsnum \<Rightarrow> jsnum" where
  "js_mul (Fin a) (Fin b) = Fin (a * b)"
| "js_mul NaN y = NaN"
| "js_mul x NaN = NaN"
| "js_mul (Fin a) y = (if a = 0 then NaN else if (0 < a) = (y = PInf) then PInf else NInf)"
| "js_mul x (Fin b) = (if b = 0 then NaN else if (0 < b) = (x = PInf) then PInf else NInf)"
| "js_mul x y = (if x = y then PInf else NInf)"

fun js_div :: "jsnum \<Rightarrow> jsnum \<Rightarrow> jsnum" where
  "js_div (Fin a) (Fin b) =
     (if b \<noteq> 0 then Fin (a / b) else if a = 0 then NaN else if 0 < a then PInf else NInf)"
| "js_div NaN y = NaN"
| "js_div x NaN = NaN"
| "js_div (Fin a) y = Fin 0"
| "js_div x (Fin b) = (if (0 \<le> b) = (x = PInf) then PInf else NInf)"
| "js_div x y = NaN"

fun js_add :: "jsnum \<Rightarrow> jsnum \<Rightarrow> jsnum" where
  "js_add (Fin a) (Fin b) = Fin (a + b)"
| "js_add NaN y = NaN"
| "js_add x NaN = NaN"
| "js_add (Fin a) y = y"
| "js_add x (Fin b) = x"
| "js_add x y = (if x = y then x else NaN)"

fun js_sub :: "jsnum \<Rightarrow> jsnum \<Rightarrow> jsnum" where
  "js_sub (Fin a) (Fin b) = Fin (a - b)"
| "js_sub NaN y = NaN"
| "js_sub x NaN = NaN"
| "js_sub (Fin a) y = (if y = PInf then NInf else PInf)"
| "js_sub x (Fin b) = x"
| "js_sub x y = (if x = y then NaN else x)"

text \<open>\<open>Math.min\<close> and \<open>Math.max\<close> return \<open>NaN\<close> as soon as one argument is \<open>NaN\<close>.\<close>

fun Math_min :: "jsnum \<Rightarrow> jsnum \<Rightarrow> jsnum" where
  "Math_min (Fin a) (Fin b) = Fin (min a b)"
| "Math_min NaN y = NaN"
| "Math_min x NaN = NaN"
| "Math_min NInf y = NInf"
| "Math_min x NInf = NInf"
| "Math_min PInf y = y"
| "Math_min x PInf = x"

fun Math_max :: "jsnum \<Rightarrow> jsnum \<Rightarrow> jsnum" where
  "Math_max (Fin a) (Fin b) = Fin (max a b)"
| "Math_max NaN y = NaN"
| "Math_max x NaN = NaN"
| "Math_max PInf y = PInf"
| "Math_max x PInf = PInf"
| "Math_max NInf y = y"
| "Math_max x NInf = x"

text \<open>\<open>Math.round\<close> rounds to the nearest integer, a half going up.\<close>

fun Math_round :: "jsnum \<Rightarrow> jsnum" where
  "Math_round (Fin a) = Fin (of_int \<lfloor>a + 1 / 2\<rfloor>)"
| "Math_round x = x"

text \<open>\<open>x || d\<close> on numbers: \<open>0\<close> and \<open>NaN\<close> are the falsy numbers.\<close>

definition truthy :: "jsnum \<Rightarrow> bool" where
  "truthy x = (x \<noteq> NaN \<and> x \<noteq> Fin 0)"

definition js_or :: "jsnum \<Rightarrow> jsnum \<Rightarrow> jsnum" where
  "js_or x d = (if truthy x then x else d)"

text \<open>
  The values a form control holds: a string (text, select and radio controls), a number
  (numeric inputs), \<open>null\<close> (after a reset) or \<open>undefined\<close> (no such control).
\<close>

datatype jsval = VUndefined | VNull | VNum jsnum | VStr string

subsection \<open>parseInt and parseFloat\<close>

definition is_space :: "char \<Rightarrow> bool" where
  "is_space c = (c \<in> set [CHR '' '', CHR 0x09, CHR 0x0A, CHR 0x0B, CHR 0x0C, CHR 0x0D])"

definition is_digit :: "char \<Rightarrow> bool" where
  "is_digit c = (c \<in> set ''0123456789'')"

definition digit_value :: "char \<Rightarrow> nat" where
  "digit_value c = of_char c - of_char CHR ''0''"

definition is_hex_digit :: "char \<Rightarrow> bool" where
  "is_hex_digit c = (c \<in> set ''0123456789abcdefABCDEF'')"

definition hex_digit_value :: "char \<Rightarrow> nat" where
  "hex_digit_value c =
     (if is_digit c then digit_value c
      else if c \<in> set ''abcdef'' then of_char c - of_char CHR ''a'' + 10
      else of_char c - of_char CHR ''A'' + 10)"

definition digits_value :: "string \<Rightarrow> nat" where
  "digits_value ds = foldl (\<lambda>acc c. 10 * acc + digit_value c) 0 ds"

definition hex_digits_value :: "string \<Rightarrow> nat" where
  "hex_digits_value ds = foldl (\<lambda>acc c. 16 * acc + hex_digit_value c) 0 ds"

text \<open>An optional sign in front of a numeral: whether it is negative, and the rest.\<close>

fun strip_sign :: "string \<Rightarrow> bool \<times> string" where
  "strip_sign (c # cs) =
     (if c = CHR ''-'' then (True, cs) else if c = CHR ''+'' then (False, cs) else (False, c # cs))"
| "strip_sign [] = (False, [])"

text \<open>
  \<open>parseInt\<close> of a string, no radix given: leading white space (of the ASCII range,
  like all characters here) is skipped, then a sign, then
  the prefix \<open>0x\<close> selects radix 16; the digits that follow are read up to the first
  character that is not a digit, and no digit at all gives \<open>NaN\<close>.
\<close>

definition parseInt_string :: "string \<Rightarrow> jsnum" where
  "parseInt_string s =
     (let (negative, t) = strip_sign (dropWhile is_space s);
          hex = (take 2 t = ''0x'' \<or> take 2 t = ''0X'');
          ds = (if hex then takeWhile is_hex_digit (drop 2 t) else takeWhile is_digit t);
          n = (if hex then hex_digits_value ds else digits_value ds)
      in if ds = [] then NaN
         else Fin (if negative then - of_nat n else of_nat n))"

text \<open>The exponent part \<open>e\<close>, sign, digits of a decimal literal; it counts only with a digit.\<close>

definition exponent_part :: "string \<Rightarrow> int" where
  "exponent_part s =
     (case s of
        [] \<Rightarrow> 0
      | c # cs \<Rightarrow>
          if c = CHR ''e'' \<or> c = CHR ''E'' then
            (let (negative, t) = strip_sign cs; ds = takeWhile is_digit t
             in if ds = [] then 0
                else if negative then - int (digits_value ds) else int (digits_value ds))
          else 0)"

text \<open>
  \<open>parseFloat\<close> of a string: leading white space is skipped and the longest prefix that is
  a decimal literal (sign, \<open>Infinity\<close> or digits with an optional fraction and exponent) is
  read; when there is none the result is \<open>NaN\<close>.
\<close>

definition parseFloat_string :: "string \<Rightarrow> jsnum" where
  "parseFloat_string s =
     (let (negative, t) = strip_sign (dropWhile is_space s)
      in if take 8 t = ''Infinity'' then (if negative then NInf else PInf)
         else
           (let ip = takeWhile is_digit t;
                r = dropWhile is_digit t;
                dot = (r \<noteq> [] \<and> hd r = CHR ''.'');
                fp = (if dot then takeWhile is_digit (tl r) else []);
                rest = (if dot then dropWhile is_digit (tl r) else r);
                m = of_nat (digits_value ip) + of_nat (digits_value fp) / 10 ^ length fp;
                v = m * 10 powi exponent_part rest
            in if ip = [] \<and> fp = [] then NaN
               else Fin (if negative then - v else v)))"

text \<open>
  The first significant decimal digit of a positive fraction \<open>a / b\<close>: below one the
  numerator is scaled up, from ten on the denominator is.
\<close>

function leading_digit_small :: "nat \<Rightarrow> nat \<Rightarrow> nat" where
  "leading_digit_small a b =
     (if a = 0 \<or> b \<le> a then a div b else leading_digit_small (10 * a) b)"
  by pat_completeness auto
termination
  by (relation "measure (\<lambda>(a, b). b - a)") auto

function leading_digit_large :: "nat \<Rightarrow> nat \<Rightarrow> nat" where
  "leading_digit_large a b =
     (if b = 0 \<or> a < 10 * b then a div b else leading_digit_large a (10 * b))"
  by pat_completeness auto
termination
  by (relation "measure (\<lambda>(a, b). a - b)") auto

declare leading_digit_small.simps [simp del] leading_digit_large.simps [simp del]

text \<open>
  \<open>parseInt\<close> of a number reads the number's printed form. From \<open>10\<^sup>-\<^sup>6\<close> up to \<open>10\<^sup>2\<^sup>1\<close> the
  print is positional and the result is the integer part; outside it the print is in
  exponent notation, whose first digit is all that \<open>parseInt\<close> reads.
\<close>

definition parseInt_number :: "rat \<Rightarrow> jsnum" where
  "parseInt_number q =
     (if q = 0 then Fin 0
      else if 1 / 10 ^ 6 \<le> \<bar>q\<bar> \<and> \<bar>q\<bar> < 10 ^ 21 then
        Fin (of_int (if 0 \<le> q then \<lfloor>q\<rfloor> else \<lceil>q\<rceil>))
      else
        (let (a, b) = quotient_of \<bar>q\<bar>;
             d = (if \<bar>q\<bar> < 1 then leading_digit_small (nat a) (nat b)
                  else leading_digit_large (nat a) (nat b))
         in Fin (if 0 \<le> q then of_nat d else - of_nat d)))"

fun parseInt :: "jsval \<Rightarrow> jsnum" where
  "parseInt (VStr s) = parseInt_string s"
| "parseInt (VNum (Fin q)) = parseInt_number q"
| "parseInt v = NaN"

text \<open>\<open>parseFloat\<close> of a number gives the number back: a number's print reads as itself.\<close>

fun parseFloat :: "jsval \<Rightarrow> jsnum" where
  "parseFloat (VStr s) = parseFloat_string s"
| "parseFloat (VNum x) = x"
| "parseFloat v = NaN"


subsection \<open>Reading a key of an object literal\<close>

text \<open>
  \<open>table[key]\<close> on an object literal finds the literal's own entries and, behind them, the
  members every object inherits from \<open>Object.prototype\<close>, which are functions or objects;
  any other key reads as \<open>undefined\<close>.
\<close>

datatype 'a member = Own 'a | Inherited string | Missing

definition Object_prototype_keys :: "string list" where
  "Object_prototype_keys =
     [''constructor'', ''hasOwnProperty'', ''isPrototypeOf'', ''propertyIsEnumerable'',
      ''toLocaleString'', ''toString'', ''valueOf'', ''__proto__'',
      ''__defineGetter__'', ''__defineSetter__'', ''__lookupGetter__'', ''__lookupSetter__'']"

text \<open>
  The key a value stands for. The print of a number is made of digits, a sign, a point
  and an exponent, or is \<open>NaN\<close> or \<open>Infinity\<close>: it is no key of the tables below, so a
  number has no key here.
\<close>

fun property_key :: "jsval \<Rightarrow> string option" where
  "property_key (VStr s) = Some s"
| "property_key VUndefined = Some ''undefined''"
| "property_key VNull = Some ''null''"
| "property_key (VNum x) = None"

definition object_get :: "(string \<times> 'a) list \<Rightarrow> jsval \<Rightarrow> 'a member" where
  "object_get entries key =
     (case property_key key of
        None \<Rightarrow> Missing
      | Some k \<Rightarrow>
          (case map_of entries k of
             Some v \<Rightarrow> Own v
           | None \<Rightarrow> if k \<in> set Object_prototype_keys then Inherited k else Missing))"

text \<open>\<open>m || d\<close>: an inherited member is an object, hence truthy; \<open>undefined\<close> is falsy.\<close>

fun number_or :: "jsnum member \<Rightarrow> jsnum \<Rightarrow> jsnum member" where
  "number_or (Own x) d = Own (js_or x d)"
| "number_or (Inherited k) d = Inherited k"
| "number_or Missing d = Own d"

fun string_or :: "string member \<Rightarrow> string \<Rightarrow> string member" where
  "string_or (Own s) d = Own (if s = [] then d else s)"
| "string_or (Inherited k) d = Inherited k"
| "string_or Missing d = Own d"

text \<open>A function or an object of \<open>Object.prototype\<close> converts to the number \<open>NaN\<close>.\<close>

fun ToNumber :: "jsnum member \<Rightarrow> jsnum" where
  "ToNumber (Own x) = x"
| "ToNumber (Inherited k) = NaN"
| "ToNumber Missing = NaN"

section \<open>The calculation result\<close>

record UserMetrics =
  averageClaimPercentage :: jsnum
  claimDenialRate :: jsnum
  costPerClaim :: jsnum
  totalMonthlyClaims :: jsnum
  monthlyRevenue :: jsnum
  monthlyProcessingCost :: jsnum

record BenchmarkMetrics =
  berserkClaimPercentage :: jsnum
  berserkCostPerClaim :: jsnum
  industryAverage :: jsnum

record Provider =
  name :: string
  npiNumber :: string
  specialty :: "string member"
  claimSuccessRatio :: jsnum
  address :: string

record CalculationResult =
  userMetrics :: UserMetrics
  benchmarkMetrics :: BenchmarkMetrics
  nearbyProviders :: "Provider list"

text \<open>
  The form data is the value of the form group: an object read by field name, with
  \<open>undefined\<close> for a name it does not have.
\<close>

type_synonym FormData = "string \<Rightarrow> jsval"

text \<open>
  The two sources of chance in the service: the order \<open>sort\<close> leaves the providers in
  under a comparator that answers at random, and the draws of \<open>Math.random\<close> that
  perturb the success ratios.
\<close>

record Chance =
  random_order :: "Provider list \<Rightarrow> Provider list"
  random :: "nat \<Rightarrow> jsnum"

section \<open>CalculatorService\<close>

text \<open>
  \<open>estimateDenialRate\<close> reads the specialty in its table and falls back on 8.0 by
  \<open>||\<close>. The specialty is whatever the form holds under that name.
\<close>

definition CalculatorService_estimateDenialRate :: "jsval \<Rightarrow> jsnum member" where
  "CalculatorService_estimateDenialRate = (\<lambda>specialty.
      let denialRates =
            [(''family_medicine'', Fin 7.2),
             (''internal_medicine'', Fin 8.1),
             (''pediatrics'', Fin 6.8),
             (''cardiology'', Fin 9.3),
             (''dermatology'', Fin 5.9),
             (''orthopedics'', Fin 10.2),
             (''dentistry'', Fin 4.5),
             (''ophthalmology'', Fin 6.7),
             (''psychiatry'', Fin 8.9),
             (''other'', Fin 8.0)]
      in number_or (object_get denialRates specialty) (Fin 8.0))"

definition CalculatorService_formatSpecialty :: "jsval \<Rightarrow> string member" where
  "CalculatorService_formatSpecialty = (\<lambda>specialty.
      let specialtyMap =
            [(''family_medicine'', ''Family Medicine''),
             (''internal_medicine'', ''Internal Medicine''),
             (''pediatrics'', ''Pediatrics''),
             (''cardiology'', ''Cardiology''),
             (''dermatology'', ''Dermatology''),
             (''orthopedics'', ''Orthopedics''),
             (''dentistry'', ''Dentistry''),
             (''ophthalmology'', ''Ophthalmology''),
             (''psychiatry'', ''Psychiatry''),
             (''other'', ''General Practice'')]
      in string_or (object_get specialtyMap specialty) ''General Practice'')"

text \<open>
  Five fixed providers, reordered by \<open>sort\<close>, cut to four by \<open>slice\<close>, each with its
  success ratio moved by a random offset and rounded to one decimal. The pincode is not
  used.
\<close>

definition CalculatorService_generateNearbyProviders ::
  "Chance \<Rightarrow> jsval \<Rightarrow> jsval \<Rightarrow> Provider list" where
  "CalculatorService_generateNearbyProviders chance = (\<lambda>specialty pincode.
      let providers =
            [\<lparr>name = ''Regional Medical Center'', npiNumber = ''1234567890'',
              specialty = CalculatorService_formatSpecialty specialty,
              claimSuccessRatio = Fin 94.2, address = ''Downtown Medical District''\<rparr>,
             \<lparr>name = ''Community Health Partners'', npiNumber = ''2345678901'',
              specialty = CalculatorService_formatSpecialty specialty,
              claimSuccessRatio = Fin 91.8, address = ''Suburban Healthcare Plaza''\<rparr>,
             \<lparr>name = ''Advanced Care Clinic'', npiNumber = ''3456789012'',
              specialty = CalculatorService_formatSpecialty specialty,
              claimSuccessRatio = Fin 89.5, address = ''Medical Arts Building''\<rparr>,
             \<lparr>name = ''Premier Healthcare Group'', npiNumber = ''4567890123'',
              specialty = CalculatorService_formatSpecialty specialty,
              claimSuccessRatio = Fin 96.1, address = ''University Medical Campus''\<rparr>,
             \<lparr>name = ''Integrated Health Solutions'', npiNumber = ''5678901234'',
              specialty = CalculatorService_formatSpecialty specialty,
              claimSuccessRatio = Fin 88.7, address = ''Central Business District''\<rparr>]
      in map (\<lambda>(i, provider).
                provider\<lparr>claimSuccessRatio :=
                  js_div (Math_round (js_mul
                    (js_add (claimSuccessRatio provider)
                       (js_mul (js_sub (random chance i) (Fin 0.5)) (Fin 4)))
                    (Fin 10))) (Fin 10)\<rparr>)
           (enumerate 0 (take 4 (random_order chance providers))))"

text \<open>
  \<open>generateMockCalculation\<close>, statement by statement. The payment time is extracted and
  not used. The processing cost starts at 0 and is assigned in the branch that applies.
  The \<open>switch\<close> compares the pricing type with its four strings by \<open>===\<close>: a pricing
  type that is no string selects no case and leaves the cost at 0; for a string, the
  pricing value is read from the field named by the pricing type followed by \<open>Value\<close>.
\<close>

definition CalculatorService_generateMockCalculation ::
  "Chance \<Rightarrow> FormData \<Rightarrow> CalculationResult" where
  "CalculatorService_generateMockCalculation chance formData =
     (let patientVolume = js_or (parseInt (formData ''patientVolume'')) (Fin 100);
          billingAverage = js_or (parseFloat (formData ''billingAverage'')) (Fin 150);
          collectionRate = js_or (parseFloat (formData ''collectionRate'')) (Fin 85);
          paymentTime = js_or (parseInt (formData ''paymentTime'')) (Fin 30);
          denialRate =
            (if formData ''knowDenialRate'' = VStr ''yes''
             then Own (js_or (parseFloat (formData ''denialRate'')) (Fin 8))
             else CalculatorService_estimateDenialRate (formData ''specialty''));
          monthlyPatients =
            (if formData ''volumePeriod'' = VStr ''daily'' then js_mul patientVolume (Fin 30)
             else if formData ''volumePeriod'' = VStr ''weekly'' then js_mul patientVolume (Fin 4)
             else patientVolume);
          monthlyRevenue =
            js_mul (js_mul monthlyPatients billingAverage) (js_div collectionRate (Fin 100));
          totalMonthlyClaims = monthlyPatients;
          monthlyProcessingCost =
            (if formData ''processingType'' = VStr ''inhouse'' then
               (let staffWages = js_or (parseFloat (formData ''staffWages'')) (Fin 4000);
                    staffCount = js_or (parseInt (formData ''staffCount'')) (Fin 2)
                in if formData ''wageType'' = VStr ''hourly''
                   then js_mul (js_mul staffWages (Fin 160)) staffCount
                   else js_mul staffWages staffCount)
             else if formData ''processingType'' = VStr ''outsource'' then
               (case formData ''outsourcePricing'' of
                  VStr pricingType \<Rightarrow>
                    (let pricingValue =
                           js_or (parseFloat (formData (pricingType @ ''Value''))) (Fin 0)
                     in if pricingType = ''percentage''
                        then js_mul monthlyRevenue (js_div pricingValue (Fin 100))
                        else if pricingType = ''perClaim''
                        then js_mul totalMonthlyClaims pricingValue
                        else if pricingType = ''monthly'' then pricingValue
                        else if pricingType = ''hourly'' then js_mul pricingValue (Fin 160)
                        else Fin 0)
                | _ \<Rightarrow> Fin 0)
             else Fin 0);
          costPerClaim = js_div monthlyProcessingCost totalMonthlyClaims;
          averageClaimPercentage =
            Math_max (Fin 60) (Math_min (Fin 98) (js_sub (Fin 100) (ToNumber denialRate)));
          benchmarkMetrics =
            \<lparr>berserkClaimPercentage = Fin 96.5, berserkCostPerClaim = Fin 12.50,
             industryAverage = Fin 92.0\<rparr>;
          nearbyProviders =
            CalculatorService_generateNearbyProviders chance
              (formData ''specialty'') (formData ''pincode'')
      in \<lparr>userMetrics =
            \<lparr>averageClaimPercentage =
               js_div (Math_round (js_mul averageClaimPercentage (Fin 10))) (Fin 10),
             claimDenialRate =
               js_div (Math_round (js_mul (ToNumber denialRate) (Fin 10))) (Fin 10),
             costPerClaim = js_div (Math_round (js_mul costPerClaim (Fin 100))) (Fin 100),
             totalMonthlyClaims = Math_round totalMonthlyClaims,
             monthlyRevenue = Math_round monthlyRevenue,
             monthlyProcessingCost = Math_round monthlyProcessingCost\<rparr>,
          benchmarkMetrics = benchmarkMetrics,
          nearbyProviders = nearbyProviders\<rparr>)"

text \<open>
  A settled promise, and the result of a \<open>try\<close> block: the error thrown, or the value.
  \<open>calculateMetrics\<close> takes any value as form data; \<open>None\<close> stands for \<open>null\<close> and
  \<open>undefined\<close>. Reading a field of these is the one step of the calculation that
  throws; every other step works on strings and numbers and always has a value.
\<close>

datatype js_error = TypeError string | Error string

definition CalculatorService_calculateMetrics ::
  "Chance \<Rightarrow> FormData option \<Rightarrow> js_error + CalculationResult" where
  "CalculatorService_calculateMetrics chance formData =
     (case (case formData of
              None \<Rightarrow> Inl (TypeError ''Cannot read properties of null'')
            | Some object \<Rightarrow> Inr (CalculatorService_generateMockCalculation chance object)) of
        Inl error \<Rightarrow> Inl (Error ''Failed to calculate metrics'')
      | Inr result \<Rightarrow> Inr result)"

subsection \<open>Regular expressions of the ZIP/PIN patterns\<close>

datatype regex = Eps | Digit | Chr char | Seq regex regex | Opt regex

text \<open>The counted repetition \<open>r{n}\<close> is \<open>r\<close> written \<open>n\<close> times in sequence.\<close>

primrec Rep :: "nat \<Rightarrow> regex \<Rightarrow> regex" where
  "Rep 0 r = Eps"
| "Rep (Suc n) r = Seq r (Rep n r)"

text \<open>
  Matching a prefix: the list of what may remain of the string, in the order a
  backtracking matcher tries them (the optional part is greedy).
\<close>

fun rests :: "regex \<Rightarrow> string \<Rightarrow> string list" where
  "rests Eps s = [s]"
| "rests Digit s = (case s of [] \<Rightarrow> [] | c # cs \<Rightarrow> if is_digit c then [cs] else [])"
| "rests (Chr a) s = (case s of [] \<Rightarrow> [] | c # cs \<Rightarrow> if c = a then [cs] else [])"
| "rests (Seq r1 r2) s = concat (map (rests r2) (rests r1 s))"
| "rests (Opt r) s = rests r s @ [s]"

text \<open>\<open>/^r$/.test(s)\<close>: the pattern is anchored at both ends, so nothing may remain.\<close>

definition regex_test :: "regex \<Rightarrow> string \<Rightarrow> bool" where
  "regex_test r s = ([] \<in> set (rests r s))"

definition CalculatorService_validateLocation :: "string \<Rightarrow> bool" where
  "CalculatorService_validateLocation pincode =
     (let usZipPattern = Seq (Rep 5 Digit) (Opt (Seq (Chr CHR ''-'') (Rep 4 Digit)));
          indianPinPattern = Rep 6 Digit
      in regex_test usZipPattern pincode \<or> regex_test indianPinPattern pincode)"

section \<open>CalculatorComponent\<close>

text \<open>
  The pincode control is a text control: its value is a string, or \<open>null\<close> after a
  reset. The validator answers \<open>null\<close> (no error) or the error object \<open>{pattern: true}\<close>.
\<close>

definition zipCodeValidator :: "string option \<Rightarrow> (string \<times> bool) list option" where
  "zipCodeValidator control_value =
     (case control_value of
        None \<Rightarrow> None
      | Some v \<Rightarrow>
          if v = [] then None
          else
            (let usZipPattern = Seq (Rep 5 Digit) (Opt (Seq (Chr CHR ''-'') (Rep 4 Digit)));
                 indianPinPattern = Rep 6 Digit
             in if regex_test usZipPattern v \<or> regex_test indianPinPattern v then None
                else Some [(''pattern'', True)]))"

text \<open>
  The component has its own copies of the lookup tables and of the calculation; the
  label of \<open>other\<close> differs, and the providers are a fixed list of four.
\<close>

definition CalculatorComponent_estimateDenialRate :: "jsval \<Rightarrow> jsnum member" where
  "CalculatorComponent_estimateDenialRate = (\<lambda>specialty.
      let denialRates =
            [(''family_medicine'', Fin 7.2),
             (''internal_medicine'', Fin 8.1),
             (''pediatrics'', Fin 6.8),
             (''cardiology'', Fin 9.3),
             (''dermatology'', Fin 5.9),
             (''orthopedics'', Fin 10.2),
             (''dentistry'', Fin 4.5),
             (''ophthalmology'', Fin 6.7),
             (''psychiatry'', Fin 8.9),
             (''other'', Fin 8.0)]
      in number_or (object_get denialRates specialty) (Fin 8.0))"

definition CalculatorComponent_formatSpecialty :: "jsval \<Rightarrow> string member" where
  "CalculatorComponent_formatSpecialty = (\<lambda>specialty.
      let specialtyMap =
            [(''family_medicine'', ''Family Medicine''),
             (''internal_medicine'', ''Internal Medicine''),
             (''pediatrics'', ''Pediatrics''),
             (''cardiology'', ''Cardiology''),
             (''dermatology'', ''Dermatology''),
             (''orthopedics'', ''Orthopedics''),
             (''dentistry'', ''Dentistry''),
             (''ophthalmology'', ''Ophthalmology''),
             (''psychiatry'', ''Psychiatry''),
             (''other'', ''Other Specialty'')]
      in string_or (object_get specialtyMap specialty) ''General Practice'')"

text \<open>The component's copy is \<open>async\<close>: its result is a promise, here always fulfilled.\<close>

definition CalculatorComponent_generateMockCalculation ::
  "FormData \<Rightarrow> js_error + CalculationResult" where
  "CalculatorComponent_generateMockCalculation formData =
     (let patientVolume = js_or (parseInt (formData ''patientVolume'')) (Fin 100);
          billingAverage = js_or (parseFloat (formData ''billingAverage'')) (Fin 150);
          collectionRate = js_or (parseFloat (formData ''collectionRate'')) (Fin 85);
          paymentTime = js_or (parseInt (formData ''paymentTime'')) (Fin 30);
          denialRate =
            (if formData ''knowDenialRate'' = VStr ''yes''
             then Own (js_or (parseFloat (formData ''denialRate'')) (Fin 8))
             else CalculatorComponent_estimateDenialRate (formData ''specialty''));
          monthlyPatients =
            (if formData ''volumePeriod'' = VStr ''daily'' then js_mul patientVolume (Fin 30)
             else if formData ''volumePeriod'' = VStr ''weekly'' then js_mul patientVolume (Fin 4)
             else patientVolume);
          monthlyRevenue =
            js_mul (js_mul monthlyPatients billingAverage) (js_div collectionRate (Fin 100));
          totalMonthlyClaims = monthlyPatients;
          monthlyProcessingCost =
            (if formData ''processingType'' = VStr ''inhouse'' then
               (let staffWages = js_or (parseFloat (formData ''staffWages'')) (Fin 4000);
                    staffCount = js_or (parseInt (formData ''staffCount'')) (Fin 2)
                in if formData ''wageType'' = VStr ''hourly''
                   then js_mul (js_mul staffWages (Fin 160)) staffCount
                   else js_mul staffWages staffCount)
             else if formData ''processingType'' = VStr ''outsource'' then
               (case formData ''outsourcePricing'' of
                  VStr pricingType \<Rightarrow>
                    (let pricingValue =
                           js_or (parseFloat (formData (pricingType @ ''Value''))) (Fin 0)
                     in if pricingType = ''percentage''
                        then js_mul monthlyRevenue (js_div pricingValue (Fin 100))
                        else if pricingType = ''perClaim''
                        then js_mul totalMonthlyClaims pricingValue
                        else if pricingType = ''monthly'' then pricingValue
                        else if pricingType = ''hourly'' then js_mul pricingValue (Fin 160)
                        else Fin 0)
                | _ \<Rightarrow> Fin 0)
             else Fin 0);
          costPerClaim = js_div monthlyProcessingCost totalMonthlyClaims;
          averageClaimPercentage =
            Math_max (Fin 60) (Math_min (Fin 98) (js_sub (Fin 100) (ToNumber denialRate)));
          nearbyProviders =
            [\<lparr>name = ''Regional Medical Center'', npiNumber = ''1234567890'',
              specialty = CalculatorComponent_formatSpecialty (formData ''specialty''),
              claimSuccessRatio = Fin 94.2, address = ''Downtown Medical District''\<rparr>,
             \<lparr>name = ''Community Health Partners'', npiNumber = ''2345678901'',
              specialty = CalculatorComponent_formatSpecialty (formData ''specialty''),
              claimSuccessRatio = Fin 91.8, address = ''Suburban Healthcare Plaza''\<rparr>,
             \<lparr>name = ''Advanced Care Clinic'', npiNumber = ''3456789012'',
              specialty = CalculatorComponent_formatSpecialty (formData ''specialty''),
              claimSuccessRatio = Fin 89.5, address = ''Medical Arts Building''\<rparr>,
             \<lparr>name = ''Premier Healthcare Group'', npiNumber = ''4567890123'',
              specialty = CalculatorComponent_formatSpecialty (formData ''specialty''),
              claimSuccessRatio = Fin 96.1, address = ''University Medical Campus''\<rparr>]
      in Inr \<lparr>userMetrics =
            \<lparr>averageClaimPercentage =
               js_div (Math_round (js_mul averageClaimPercentage (Fin 10))) (Fin 10),
             claimDenialRate =
               js_div (Math_round (js_mul (ToNumber denialRate) (Fin 10))) (Fin 10),
             costPerClaim = js_div (Math_round (js_mul costPerClaim (Fin 100))) (Fin 100),
             totalMonthlyClaims = Math_round totalMonthlyClaims,
             monthlyRevenue = Math_round monthlyRevenue,
             monthlyProcessingCost = Math_round monthlyProcessingCost\<rparr>,
          benchmarkMetrics =
            \<lparr>berserkClaimPercentage = Fin 96.5, berserkCostPerClaim = Fin 12.50,
             industryAverage = Fin 92.0\<rparr>,
          nearbyProviders = nearbyProviders\<rparr>)"


subsection \<open>The form and its steps\<close>

text \<open>
  Whether a control is valid is the verdict of the form library on the validators
  attached to the control. It is a parameter of the model: \<open>valid form field\<close> says
  that the control \<open>field\<close> is valid when the form holds the values \<open>form\<close>.
\<close>

type_synonym Validity = "FormData \<Rightarrow> string \<Rightarrow> bool"

definition controls :: "string list" where
  "controls =
     [''address'', ''pincode'', ''specialty'',
      ''patientVolume'', ''volumePeriod'', ''billingAverage'', ''collectionRate'',
      ''paymentTime'', ''knowDenialRate'', ''denialRate'',
      ''processingType'', ''staffWages'', ''wageType'', ''staffCount'',
      ''outsourcePricing'', ''percentageValue'', ''perClaimValue'', ''monthlyValue'',
      ''hourlyValue'']"

definition createForm :: FormData where
  "createForm =
     (\<lambda>field. VUndefined)
       (''address'' := VStr [], ''pincode'' := VStr [], ''specialty'' := VStr [],
        ''patientVolume'' := VNum (Fin 100), ''volumePeriod'' := VStr ''monthly'',
        ''billingAverage'' := VStr [], ''collectionRate'' := VNum (Fin 85),
        ''paymentTime'' := VNum (Fin 30), ''knowDenialRate'' := VStr [],
        ''denialRate'' := VNum (Fin 8),
        ''processingType'' := VStr [],
        ''staffWages'' := VStr [], ''wageType'' := VStr ''monthly'',
        ''staffCount'' := VStr [],
        ''outsourcePricing'' := VStr [], ''percentageValue'' := VStr [],
        ''perClaimValue'' := VStr [], ''monthlyValue'' := VStr [],
        ''hourlyValue'' := VStr [])"

text \<open>
  The state of the component the steps and the submission work on. The animated counters
  and the error texts are left out, and so are scrolling and animation; the flag
  \<open>errorNotification\<close> stands for the notification \<open>handleCalculationError\<close> adds to
  the page.
\<close>

record CalculatorComponent =
  calculatorForm :: FormData
  touched :: "string \<Rightarrow> bool"
  calculationResult :: "CalculationResult option"
  isLoading :: bool
  currentStep :: int
  errorNotification :: bool

definition CalculatorComponent_constructor :: CalculatorComponent where
  "CalculatorComponent_constructor =
     \<lparr>calculatorForm = createForm, touched = (\<lambda>field. False), calculationResult = None,
      isLoading = False, currentStep = 1, errorNotification = False\<rparr>"

definition getStepFields :: "int \<Rightarrow> string list" where
  "getStepFields step =
     (if step = 1 then [''address'', ''pincode'', ''specialty'']
      else if step = 2 then
        [''patientVolume'', ''billingAverage'', ''collectionRate'', ''paymentTime'']
      else if step = 3 then [''processingType'']
      else [])"

text \<open>
  \<open>validateCurrentStep\<close> marks every control of the step as touched and answers whether
  all of them are valid; a name that is no control is skipped.
\<close>

definition validateCurrentStep ::
  "Validity \<Rightarrow> CalculatorComponent \<Rightarrow> bool \<times> CalculatorComponent" where
  "validateCurrentStep valid self =
     (let stepFields = getStepFields (currentStep self);
          found = filter (\<lambda>fieldName. fieldName \<in> set controls) stepFields;
          isValid = list_all (\<lambda>fieldName. valid (calculatorForm self) fieldName) found
      in (isValid, self\<lparr>touched := (\<lambda>field. field \<in> set found \<or> touched self field)\<rparr>))"

definition nextStep :: "Validity \<Rightarrow> CalculatorComponent \<Rightarrow> CalculatorComponent" where
  "nextStep valid self =
     (let (isValid, self') = validateCurrentStep valid self
      in if isValid then self'\<lparr>currentStep := currentStep self' + 1\<rparr> else self')"

definition previousStep :: "CalculatorComponent \<Rightarrow> CalculatorComponent" where
  "previousStep self =
     (if currentStep self > 1 then self\<lparr>currentStep := currentStep self - 1\<rparr> else self)"

text \<open>
  \<open>reset\<close> sets every control to \<open>null\<close> and untouched; \<open>patchValue\<close> then restores the
  two period selectors.
\<close>

definition resetCalculator :: "CalculatorComponent \<Rightarrow> CalculatorComponent" where
  "resetCalculator self =
     self\<lparr>calculationResult := None,
          currentStep := 1,
          calculatorForm :=
            (\<lambda>field. if field \<in> set controls then VNull else VUndefined)
              (''volumePeriod'' := VStr ''monthly'', ''wageType'' := VStr ''monthly''),
          touched := (\<lambda>field. False)\<rparr>"

text \<open>
  \<open>onSubmit\<close>: an invalid form is only marked as touched; otherwise the calculation runs
  inside \<open>try\<close>, and a rejection would put up the error notification.
\<close>

definition onSubmit :: "Validity \<Rightarrow> CalculatorComponent \<Rightarrow> CalculatorComponent" where
  "onSubmit valid self =
     (if \<not> list_all (\<lambda>field. valid (calculatorForm self) field) controls
      then self\<lparr>touched := (\<lambda>field. field \<in> set controls \<or> touched self field)\<rparr>
      else
        (case CalculatorComponent_generateMockCalculation (calculatorForm self) of
           Inr result \<Rightarrow> self\<lparr>calculationResult := Some result, isLoading := False\<rparr>
         | Inl error \<Rightarrow> self\<lparr>errorNotification := True, isLoading := False\<rparr>))"

text \<open>
  The states of the component: what the constructor builds, and what the public methods
  and the user's edits of the form make of a state.
\<close>

inductive reachable :: "Validity \<Rightarrow> CalculatorComponent \<Rightarrow> bool" for valid :: Validity where
  by_constructor: "reachable valid CalculatorComponent_constructor"
| by_edit: "reachable valid self \<Longrightarrow> reachable valid (self\<lparr>calculatorForm := form\<rparr>)"
| by_nextStep: "reachable valid self \<Longrightarrow> reachable valid (nextStep valid self)"
| by_previousStep: "reachable valid self \<Longrightarrow> reachable valid (previousStep self)"
| by_resetCalculator: "reachable valid self \<Longrightarrow> reachable valid (resetCalculator self)"
| by_onSubmit: "reachable valid self \<Longrightarrow> reachable valid (onSubmit valid self)"

subsection \<open>Named parts of the calculation\<close>

text \<open>
  Two local values of \<open>generateMockCalculation\<close> that its result reports only after
  rounding: the monthly patient count, which is also the claim count, and the monthly
  processing cost. They are named here for the statements about the cost per claim.
\<close>

definition local_monthlyPatients :: "FormData \<Rightarrow> jsnum" where
  "local_monthlyPatients formData =
     (let patientVolume = js_or (parseInt (formData ''patientVolume'')) (Fin 100)
      in if formData ''volumePeriod'' = VStr ''daily'' then js_mul patientVolume (Fin 30)
         else if formData ''volumePeriod'' = VStr ''weekly'' then js_mul patientVolume (Fin 4)
         else patientVolume)"


text \<open>
  The shape the ZIP/PIN patterns describe, in words: five digits, or five digits, a
  hyphen and four digits, or six digits.
\<close>

definition zip_or_pin :: "string \<Rightarrow> bool" where
  "zip_or_pin s =
     ((length s = 5 \<and> list_all is_digit s) \<or>
      (length s = 10 \<and> list_all is_digit (take 5 s) \<and> s ! 5 = CHR ''-'' \<and>
       list_all is_digit (drop 6 s)) \<or>
      (length s = 6 \<and> list_all is_digit s))"

text \<open>
  The \<open>required\<close> validator of the form library, the one validator every control of a
  step carries: a value is missing when it is \<open>null\<close>, \<open>undefined\<close> or the empty string.
\<close>

definition required :: "jsval \<Rightarrow> bool" where
  "required v = (v \<noteq> VNull \<and> v \<noteq> VUndefined \<and> v \<noteq> VStr [])"

text \<open>
  A form filled in so that every control of the three steps passes its validators, and
  the verdict that checks \<open>required\<close> on every control.
\<close>

definition filled_form :: FormData where
  "filled_form =
     createForm
       (''address'' := VStr ''12 Main Street, Springfield'', ''pincode'' := VStr ''12345'',
        ''specialty'' := VStr ''cardiology'', ''billingAverage'' := VNum (Fin 150),
        ''processingType'' := VStr ''inhouse'')"

definition required_validity :: Validity where
  "required_validity form field = required (form field)"

section \<open>Properties of the number model\<close>

lemma floor_rat_numeral:
  "\<lfloor>(numeral a :: rat) / numeral b\<rfloor> = numeral a div numeral b"
  "\<lfloor>(1 :: rat) / numeral b\<rfloor> = 1 div numeral b"
  "\<lfloor>- ((numeral a :: rat) / numeral b)\<rfloor> = - numeral a div numeral b"
  using floor_divide_of_int_eq [of "numeral a" "numeral b", where ?'a = rat]
    floor_divide_of_int_eq [of 1 "numeral b", where ?'a = rat]
    floor_divide_of_int_eq [of "- numeral a" "numeral b", where ?'a = rat]
  by simp_all



text \<open>\<open>parseInt\<close> yields \<open>NaN\<close> or an integer, never a fraction or an infinity.\<close>

lemma parseInt_string_int:
  "parseInt_string s = NaN \<or> (\<exists>k::int. parseInt_string s = Fin (of_int k))"
proof -
  obtain neg t where st: "strip_sign (dropWhile is_space s) = (neg, t)"
    by (cases "strip_sign (dropWhile is_space s)")
  have "\<exists>k::int. (if neg then - of_nat n else (of_nat n :: rat)) = of_int k" for n :: nat
    by (cases neg) (auto intro: exI [of _ "int n"] exI [of _ "- int n"])
  then show ?thesis
    unfolding parseInt_string_def Let_def st by (auto simp del: of_int_of_nat_eq)
qed

lemma parseInt_number_int: "\<exists>k::int. parseInt_number q = Fin (of_int k)"
proof -
  have "\<exists>k::int. (if 0 \<le> q then of_nat d else - (of_nat d :: rat)) = of_int k" for d :: nat
    by (cases "0 \<le> q") (auto intro: exI [of _ "int d"] exI [of _ "- int d"])
  moreover have "\<exists>k::int. (0::rat) = of_int k"
    by (rule exI [of _ 0]) simp
  ultimately show ?thesis
    unfolding parseInt_number_def Let_def
    by (auto split: prod.splits simp del: of_int_of_nat_eq)
qed

lemma parseInt_int: "parseInt v = NaN \<or> (\<exists>k::int. parseInt v = Fin (of_int k))"
proof (cases v)
  case (VNum x)
  then show ?thesis using parseInt_number_int by (cases x) auto
next
  case (VStr s)
  then show ?thesis using parseInt_string_int [of s] by simp
qed simp_all

text \<open>With a default that is not zero, \<open>parseInt(v) || d\<close> is an integer other than zero.\<close>

lemma parseInt_or_default:
  assumes "d \<noteq> 0"
  shows "\<exists>k::int. k \<noteq> 0 \<and> js_or (parseInt v) (Fin (of_int d)) = Fin (of_int k)"
  using parseInt_int [of v] assms by (auto simp: js_or_def truthy_def)

section \<open>The fields of the service's result\<close>




section \<open>Monthly patients and revenue\<close>




section \<open>The processing cost\<close>





section \<open>The denial rate\<close>

lemma svc_claimDenialRate:
  "claimDenialRate (userMetrics (CalculatorService_generateMockCalculation chance formData)) =
     (let denialRate =
            (if formData ''knowDenialRate'' = VStr ''yes''
             then Own (js_or (parseFloat (formData ''denialRate'')) (Fin 8))
             else CalculatorService_estimateDenialRate (formData ''specialty''))
      in js_div (Math_round (js_mul (ToNumber denialRate) (Fin 10))) (Fin 10))"
  by (simp add: CalculatorService_generateMockCalculation_def Let_def)

lemma svc_averageClaimPercentage:
  "averageClaimPercentage
     (userMetrics (CalculatorService_generateMockCalculation chance formData)) =
     (let denialRate =
            (if formData ''knowDenialRate'' = VStr ''yes''
             then Own (js_or (parseFloat (formData ''denialRate'')) (Fin 8))
             else CalculatorService_estimateDenialRate (formData ''specialty''))
      in js_div
           (Math_round
              (js_mul
                 (Math_max (Fin 60) (Math_min (Fin 98) (js_sub (Fin 100) (ToNumber denialRate))))
                 (Fin 10)))
           (Fin 10))"
  by (simp add: CalculatorService_generateMockCalculation_def Let_def)

text \<open>The ten documented specialties read their own entry of the table.\<close>

lemma estimateDenialRate_documented:
  "map CalculatorService_estimateDenialRate
     [VStr ''family_medicine'', VStr ''internal_medicine'', VStr ''pediatrics'',
      VStr ''cardiology'', VStr ''dermatology'', VStr ''orthopedics'', VStr ''dentistry'',
      VStr ''ophthalmology'', VStr ''psychiatry'', VStr ''other''] =
   [Own (Fin 7.2), Own (Fin 8.1), Own (Fin 6.8), Own (Fin 9.3), Own (Fin 5.9),
    Own (Fin 10.2), Own (Fin 4.5), Own (Fin 6.7), Own (Fin 8.9), Own (Fin 8.0)]"
  by (simp add: CalculatorService_estimateDenialRate_def object_get_def js_or_def truthy_def)

text \<open>A key that is neither in the table nor a member of \<open>Object.prototype\<close> reads 8.0.\<close>

lemma estimateDenialRate_unknown:
  assumes "key \<notin> set [''family_medicine'', ''internal_medicine'', ''pediatrics'',
      ''cardiology'', ''dermatology'', ''orthopedics'', ''dentistry'', ''ophthalmology'',
      ''psychiatry'', ''other'']"
    and "key \<notin> set Object_prototype_keys"
  shows "CalculatorService_estimateDenialRate (VStr key) = Own (Fin 8.0)"
  using assms
  by (simp add: CalculatorService_estimateDenialRate_def object_get_def)

lemma estimateDenialRate_same:
  "CalculatorComponent_estimateDenialRate = CalculatorService_estimateDenialRate"
  unfolding CalculatorComponent_estimateDenialRate_def CalculatorService_estimateDenialRate_def
  by (rule refl)

text \<open>
  Claim C3, at the input where the code departs from it. The key \<open>constructor\<close> is none
  of the ten documented specialties, so the lookup should answer 8.0. The table is an
  object literal, the key is found on \<open>Object.prototype\<close>, the member found is a function
  and hence truthy, and the lookup returns it instead of the default, in the service and in
  the component alike.
\<close>

theorem estimateDenialRate_constructor:
  "CalculatorService_estimateDenialRate (VStr ''constructor'') = Inherited ''constructor'' \<and>
   CalculatorComponent_estimateDenialRate (VStr ''constructor'') = Inherited ''constructor'' \<and>
   CalculatorService_estimateDenialRate (VStr ''constructor'') \<noteq> Own (Fin 8.0)"
  by (simp add: CalculatorService_estimateDenialRate_def
      CalculatorComponent_estimateDenialRate_def object_get_def Object_prototype_keys_def)

text \<open>
  Claim C4 as stated fails: with the flag \<open>yes\<close> and a denial rate field that is empty,
  or that holds 0, the calculation uses and reports 8.
\<close>

theorem user_denial_rate_counterexample:
  "claimDenialRate (userMetrics (CalculatorService_generateMockCalculation
      \<lparr>random_order = (\<lambda>providers. providers), random = (\<lambda>i. Fin 0.5)\<rparr>
      ((\<lambda>field. VUndefined)(''knowDenialRate'' := VStr ''yes'', ''denialRate'' := VNull))))
     = Fin 8 \<and>
   parseFloat VNull = NaN \<and>
   claimDenialRate (userMetrics (CalculatorService_generateMockCalculation
      \<lparr>random_order = (\<lambda>providers. providers), random = (\<lambda>i. Fin 0.5)\<rparr>
      ((\<lambda>field. VUndefined)(''knowDenialRate'' := VStr ''yes'', ''denialRate'' := VNum (Fin 0)))))
     = Fin 8 \<and>
   parseFloat (VNum (Fin 0)) = Fin 0"
  unfolding svc_claimDenialRate
  by (simp add: js_or_def truthy_def floor_rat_numeral)

text \<open>
  Claim C4, amended. With the flag \<open>yes\<close>, a denial rate field that reads (by
  \<open>parseFloat\<close>) as a number other than zero is the denial rate of the calculation: the
  result reports it rounded to one decimal, and the claim percentage is computed from it.
  A field that does not read as a number gives the default 8.
\<close>

theorem user_denial_rate:
  assumes "formData ''knowDenialRate'' = VStr ''yes''"
  shows
    "(let result = userMetrics (CalculatorService_generateMockCalculation chance formData);
          supplied = parseFloat (formData ''denialRate'')
      in (supplied \<noteq> NaN \<and> supplied \<noteq> Fin 0 \<longrightarrow>
            claimDenialRate result =
              js_div (Math_round (js_mul supplied (Fin 10))) (Fin 10) \<and>
            averageClaimPercentage result =
              js_div (Math_round (js_mul
                (Math_max (Fin 60) (Math_min (Fin 98) (js_sub (Fin 100) supplied)))
                (Fin 10))) (Fin 10)) \<and>
         (\<forall>d. supplied = Fin d \<and> d \<noteq> 0 \<longrightarrow>
            claimDenialRate result = Fin (of_int \<lfloor>d * 10 + 1 / 2\<rfloor> / 10)) \<and>
         (supplied = NaN \<longrightarrow> claimDenialRate result = Fin 8))"
  unfolding Let_def svc_claimDenialRate svc_averageClaimPercentage
  using assms by (auto simp: js_or_def truthy_def floor_rat_numeral)

theorem user_denial_rate_witness:
  "parseFloat (VNum (Fin 12.34)) = Fin 12.34 \<and>
   claimDenialRate (userMetrics (CalculatorService_generateMockCalculation
      \<lparr>random_order = (\<lambda>providers. providers), random = (\<lambda>i. Fin 0.5)\<rparr>
      ((\<lambda>field. VUndefined)
         (''knowDenialRate'' := VStr ''yes'', ''denialRate'' := VNum (Fin 12.34)))))
     = Fin 12.3 \<and>
   averageClaimPercentage (userMetrics (CalculatorService_generateMockCalculation
      \<lparr>random_order = (\<lambda>providers. providers), random = (\<lambda>i. Fin 0.5)\<rparr>
      ((\<lambda>field. VUndefined)
         (''knowDenialRate'' := VStr ''yes'', ''denialRate'' := VNum (Fin 12.34)))))
     = Fin 87.7 \<and>
   parseFloat (VStr ''n/a'') = NaN \<and>
   claimDenialRate (userMetrics (CalculatorService_generateMockCalculation
      \<lparr>random_order = (\<lambda>providers. providers), random = (\<lambda>i. Fin 0.5)\<rparr>
      ((\<lambda>field. VUndefined)
         (''knowDenialRate'' := VStr ''yes'', ''denialRate'' := VStr ''n/a''))))
     = Fin 8"
proof -
  let ?chance = "\<lparr>random_order = (\<lambda>providers. providers), random = (\<lambda>i. Fin 0.5)\<rparr>"
  let ?number = "(\<lambda>field. VUndefined)
         (''knowDenialRate'' := VStr ''yes'', ''denialRate'' := VNum (Fin 12.34))"
  let ?text = "(\<lambda>field. VUndefined)
         (''knowDenialRate'' := VStr ''yes'', ''denialRate'' := VStr ''n/a'')"
  have yes: "?number ''knowDenialRate'' = VStr ''yes''" "?text ''knowDenialRate'' = VStr ''yes''"
    by simp_all
  have nan: "parseFloat (VStr ''n/a'') = NaN"
    by (simp add: parseFloat_string_def is_space_def is_digit_def)
  have percentage: "averageClaimPercentage
      (userMetrics (CalculatorService_generateMockCalculation ?chance ?number)) = Fin 87.7"
    using user_denial_rate [where formData = ?number and chance = ?chance, OF yes(1),
        unfolded Let_def, THEN conjunct1]
    by (simp add: floor_rat_numeral)
  have rate: "claimDenialRate
      (userMetrics (CalculatorService_generateMockCalculation ?chance ?number)) = Fin 12.3"
    using user_denial_rate [where formData = ?number and chance = ?chance, OF yes(1),
        unfolded Let_def, THEN conjunct2, THEN conjunct1, THEN spec, of "12.34"]
    by (simp add: floor_rat_numeral)
  have fallback: "claimDenialRate
      (userMetrics (CalculatorService_generateMockCalculation ?chance ?text)) = Fin 8"
    using user_denial_rate [where formData = ?text and chance = ?chance, OF yes(2),
        unfolded Let_def, THEN conjunct2, THEN conjunct2] nan
    by simp
  show ?thesis
    using percentage rate fallback nan by simp
qed

section \<open>The claim percentage\<close>

text \<open>
  As long as the denial rate is a number, the displayed claim percentage lies between 60
  and 98: always with the flag \<open>yes\<close>, and otherwise for every specialty that is no member
  name of \<open>Object.prototype\<close>.
\<close>

lemma clamp_rounded_in_range:
  assumes "x \<noteq> NaN"
  shows "\<exists>p. js_div (Math_round (js_mul (Math_max (Fin 60) (Math_min (Fin 98)
            (js_sub (Fin 100) x))) (Fin 10))) (Fin 10) = Fin p \<and> 60 \<le> p \<and> p \<le> 98"
proof (cases x)
  case (Fin d)
  define m where "m = max 60 (min 98 (100 - d))"
  define r where "r = (of_int \<lfloor>m * 10 + 1 / 2\<rfloor> :: rat) / 10"
  have m: "60 \<le> m" "m \<le> 98"
    by (simp_all add: m_def)
  have "600 \<le> \<lfloor>m * 10 + 1 / 2\<rfloor>"
    using m by (simp add: le_floor_iff)
  then have "(of_int 600 :: rat) \<le> of_int \<lfloor>m * 10 + 1 / 2\<rfloor>"
    by (simp only: of_int_le_iff)
  then have lo: "60 \<le> r"
    by (simp add: r_def)
  have "\<lfloor>m * 10 + 1 / 2\<rfloor> \<le> 980"
    using m by (simp add: floor_le_iff)
  then have "(of_int \<lfloor>m * 10 + 1 / 2\<rfloor> :: rat) \<le> of_int 980"
    by (simp only: of_int_le_iff)
  then have hi: "r \<le> 98"
    by (simp add: r_def)
  have "js_div (Math_round (js_mul (Math_max (Fin 60) (Math_min (Fin 98)
            (js_sub (Fin 100) x))) (Fin 10))) (Fin 10) = Fin r"
    by (simp add: Fin m_def r_def)
  with lo hi show ?thesis by blast
qed (use assms in \<open>simp_all add: floor_rat_numeral\<close>)

lemma claim_percentage_in_range:
  assumes "formData ''knowDenialRate'' = VStr ''yes'' \<or>
      (\<exists>x. CalculatorService_estimateDenialRate (formData ''specialty'') = Own x)"
  shows "\<exists>p. averageClaimPercentage
            (userMetrics (CalculatorService_generateMockCalculation chance formData)) = Fin p \<and>
          60 \<le> p \<and> p \<le> 98"
proof -
  have own: "ToNumber (CalculatorService_estimateDenialRate v) \<noteq> NaN"
    if "CalculatorService_estimateDenialRate v = Own x" for v x
  proof -
    have "x \<noteq> NaN"
      using that
      by (auto simp: CalculatorService_estimateDenialRate_def object_get_def js_or_def
          truthy_def split: option.splits if_splits dest!: map_of_SomeD)
    with that show ?thesis by simp
  qed
  have "js_or (parseFloat (formData ''denialRate'')) (Fin 8) \<noteq> NaN"
    by (simp add: js_or_def truthy_def)
  then show ?thesis
    unfolding svc_averageClaimPercentage Let_def
    using assms own clamp_rounded_in_range by (auto split: if_splits)
qed

text \<open>
  Claim C5, at the input where the code departs from it. With the flag not \<open>yes\<close> and
  the specialty \<open>constructor\<close> the denial rate is the inherited function of claim C3; it
  converts to \<open>NaN\<close>, \<open>Math.min\<close> and \<open>Math.max\<close> pass \<open>NaN\<close> on, and the displayed claim
  percentage is \<open>NaN\<close>, not a number between 60 and 98.
\<close>

theorem claim_percentage_constructor:
  "averageClaimPercentage (userMetrics (CalculatorService_generateMockCalculation
      \<lparr>random_order = (\<lambda>providers. providers), random = (\<lambda>i. Fin 0.5)\<rparr>
      ((\<lambda>field. VUndefined)(''specialty'' := VStr ''constructor'')))) = NaN"
  unfolding svc_averageClaimPercentage
  by (simp add: CalculatorService_estimateDenialRate_def object_get_def
      Object_prototype_keys_def)


section \<open>The cost per claim\<close>



text \<open>
  The claim count is an integer other than zero, whatever the form holds: a patient
  volume that reads as zero or not at all is replaced by 100 before it is scaled.
\<close>

lemma monthlyPatients_never_zero:
  "\<exists>k::int. k \<noteq> 0 \<and> local_monthlyPatients formData = Fin (of_int k)"
proof -
  obtain k :: int where k: "k \<noteq> 0"
      "js_or (parseInt (formData ''patientVolume'')) (Fin 100) = Fin (of_int k)"
    using parseInt_or_default [of 100 "formData ''patientVolume''"] by auto
  have "local_monthlyPatients formData = Fin (of_int (k * 30)) \<or>
      local_monthlyPatients formData = Fin (of_int (k * 4)) \<or>
      local_monthlyPatients formData = Fin (of_int k)"
    unfolding local_monthlyPatients_def Let_def k(2) by simp
  with k(1) show ?thesis
    by (metis mult_eq_0_iff zero_neq_numeral)
qed



section \<open>The two copies of the calculation\<close>

text \<open>
  Claim C7. The component's copy of \<open>generateMockCalculation\<close> and the service's compute
  the same user metrics for every form input (and the same benchmark metrics); the
  component's promise is fulfilled with them.
\<close>

theorem generateMockCalculation_copies_agree:
  "\<exists>result. CalculatorComponent_generateMockCalculation formData = Inr result \<and>
     userMetrics result =
       userMetrics (CalculatorService_generateMockCalculation chance formData) \<and>
     benchmarkMetrics result =
       benchmarkMetrics (CalculatorService_generateMockCalculation chance formData)"
  unfolding CalculatorComponent_generateMockCalculation_def
    CalculatorService_generateMockCalculation_def estimateDenialRate_same
  by (simp add: Let_def)

section \<open>No error path\<close>

text \<open>Only a form data that is \<open>null\<close> or \<open>undefined\<close>, no record at all, reaches the catch.\<close>

lemma calculateMetrics_null:
  "CalculatorService_calculateMetrics chance None = Inl (Error ''Failed to calculate metrics'')"
  by (simp add: CalculatorService_calculateMetrics_def)



section \<open>The ZIP/PIN validators\<close>

lemma rests_Rep_Digit:
  "rests (Rep n Digit) s =
     (if n \<le> length s \<and> list_all is_digit (take n s) then [drop n s] else [])"
proof (induction n arbitrary: s)
  case 0
  show ?case by simp
next
  case (Suc n)
  show ?case
  proof (cases s)
    case Nil
    then show ?thesis by simp
  next
    case (Cons c cs)
    show ?thesis
    proof (cases "is_digit c")
      case True
      with Cons show ?thesis by (simp add: Suc.IH)
    next
      case False
      with Cons show ?thesis by simp
    qed
  qed
qed

lemma drop_eq_ConsD:
  assumes "drop n s = c # cs"
  shows "n < length s \<and> s ! n = c \<and> drop (Suc n) s = cs"
proof -
  have n: "n < length s"
    using assms by (cases "n < length s") simp_all
  then have "s ! n # drop (Suc n) s = c # cs"
    using assms by (simp add: Cons_nth_drop_Suc)
  with n show ?thesis by simp
qed

lemma usZipPattern_test:
  "regex_test (Seq (Rep 5 Digit) (Opt (Seq (Chr CHR ''-'') (Rep 4 Digit)))) s =
     ((length s = 5 \<and> list_all is_digit s) \<or>
      (length s = 10 \<and> list_all is_digit (take 5 s) \<and> s ! 5 = CHR ''-'' \<and>
       list_all is_digit (drop 6 s)))"
proof (cases "5 \<le> length s \<and> list_all is_digit (take 5 s)")
  case False
  then show ?thesis
    by (auto simp: regex_test_def rests_Rep_Digit)
next
  case True
  show ?thesis
  proof (cases "drop 5 s")
    case Nil
    with True show ?thesis
      by (auto simp: regex_test_def rests_Rep_Digit)
  next
    case (Cons c cs)
    then have s5: "5 < length s" "s ! 5 = c" "drop 6 s = cs"
      using drop_eq_ConsD [of 5 s c cs] by simp_all
    have len: "length cs = length s - 6"
      using s5(3) by (metis length_drop)
    show ?thesis
      using True Cons s5 len
      by (auto simp: regex_test_def rests_Rep_Digit)
  qed
qed

lemma indianPinPattern_test:
  "regex_test (Rep 6 Digit) s = (length s = 6 \<and> list_all is_digit s)"
  by (auto simp: regex_test_def rests_Rep_Digit)

lemma validateLocation_zip_or_pin: "CalculatorService_validateLocation s = zip_or_pin s"
  unfolding CalculatorService_validateLocation_def Let_def usZipPattern_test
    indianPinPattern_test zip_or_pin_def
  by (simp only: disj_assoc)

lemma zipCodeValidator_zip_or_pin:
  "(zipCodeValidator v = None) = (v = None \<or> v = Some [] \<or> (\<exists>t. v = Some t \<and> zip_or_pin t))"
  unfolding zipCodeValidator_def Let_def usZipPattern_test indianPinPattern_test zip_or_pin_def
  by (cases v) auto

lemma zip_or_pin_examples:
  "map zip_or_pin [''12345'', ''12345-6789'', ''560001'', ''abc12'', ''1234''] =
     [True, True, True, False, False]"
  by (simp add: zip_or_pin_def is_digit_def)

text \<open>
  Claim C9 as stated fails for the component's validator: the empty string matches
  neither pattern, the service rejects it, and \<open>zipCodeValidator\<close> accepts it (it answers
  no error for an empty value and leaves emptiness to the \<open>required\<close> validator).
\<close>

theorem zipCodeValidator_empty_counterexample:
  "zipCodeValidator (Some []) = None \<and> \<not> zip_or_pin [] \<and>
   \<not> CalculatorService_validateLocation []"
  by (simp add: zipCodeValidator_def validateLocation_zip_or_pin zip_or_pin_def)

text \<open>
  Claim C9, amended. The service's \<open>validateLocation\<close> accepts exactly the strings of five
  digits, of five digits, a hyphen and four digits, and of six digits. The component's
  \<open>zipCodeValidator\<close> accepts exactly these strings and the empty value (\<open>null\<close> or the
  empty string). Both accept \<open>12345\<close>, \<open>12345-6789\<close> and \<open>560001\<close> and reject \<open>abc12\<close>
  and \<open>1234\<close>.
\<close>

theorem zip_validators:
  "CalculatorService_validateLocation s = zip_or_pin s \<and>
   (zipCodeValidator v = None) =
     (v = None \<or> v = Some [] \<or> (\<exists>t. v = Some t \<and> zip_or_pin t)) \<and>
   map CalculatorService_validateLocation
     [''12345'', ''12345-6789'', ''560001'', ''abc12'', ''1234''] =
     [True, True, True, False, False] \<and>
   map (\<lambda>t. zipCodeValidator (Some t) = None)
     [''12345'', ''12345-6789'', ''560001'', ''abc12'', ''1234''] =
     [True, True, True, False, False]"
proof -
  have "map CalculatorService_validateLocation
     [''12345'', ''12345-6789'', ''560001'', ''abc12'', ''1234''] =
     [True, True, True, False, False]"
    using zip_or_pin_examples by (simp add: validateLocation_zip_or_pin)
  moreover have "map (\<lambda>t. zipCodeValidator (Some t) = None)
     [''12345'', ''12345-6789'', ''560001'', ''abc12'', ''1234''] =
     [True, True, True, False, False]"
    using zip_or_pin_examples by (simp add: zipCodeValidator_zip_or_pin)
  ultimately show ?thesis
    using validateLocation_zip_or_pin [of s] zipCodeValidator_zip_or_pin [of v] by blast
qed

section \<open>The steps of the form\<close>

lemma getStepFields_controls: "set (getStepFields step) \<subseteq> set controls"
  by (auto simp: getStepFields_def controls_def)

lemma nextStep_currentStep:
  "currentStep (nextStep valid self) =
     (if list_all (\<lambda>fieldName. valid (calculatorForm self) fieldName)
           (getStepFields (currentStep self))
      then currentStep self + 1 else currentStep self)"
proof -
  have "filter (\<lambda>fieldName. fieldName \<in> set controls) (getStepFields (currentStep self)) =
      getStepFields (currentStep self)"
    using getStepFields_controls [of "currentStep self"] by (auto simp: filter_id_conv)
  then show ?thesis
    by (simp add: nextStep_def validateCurrentStep_def Let_def)
qed

lemma previousStep_currentStep:
  "currentStep (previousStep self) =
     (if 1 < currentStep self then currentStep self - 1 else currentStep self)"
  by (simp add: previousStep_def)

lemma resetCalculator_currentStep: "currentStep (resetCalculator self) = 1"
  by (simp add: resetCalculator_def)

lemma onSubmit_currentStep: "currentStep (onSubmit valid self) = currentStep self"
  by (simp add: onSubmit_def split: sum.splits)

text \<open>The lower bound holds in every state: the step never drops below 1.\<close>

lemma reachable_currentStep_lower: "reachable valid self \<Longrightarrow> 1 \<le> currentStep self"
proof (induction rule: reachable.induct)
  case by_constructor
  show ?case by (simp add: CalculatorComponent_constructor_def)
next
  case (by_nextStep self)
  then show ?case by (simp add: nextStep_currentStep)
next
  case (by_previousStep self)
  then show ?case by (simp add: previousStep_currentStep)
qed (simp_all add: resetCalculator_currentStep onSubmit_currentStep)

text \<open>
  Claim C10, at the input where the code departs from it. \<open>previousStep\<close> guards the lower
  bound, \<open>nextStep\<close> has no guard for the upper one: on the filled-in form, whose controls
  are all valid, three calls of \<open>nextStep\<close> from the constructed component lead to step
  4, outside the range 1 to 3, and a fourth, which has no field left to check, to step 5.
\<close>

theorem nextStep_leaves_range:
  "reachable required_validity
     (nextStep required_validity (nextStep required_validity (nextStep required_validity
        (CalculatorComponent_constructor\<lparr>calculatorForm := filled_form\<rparr>)))) \<and>
   currentStep
     (nextStep required_validity (nextStep required_validity (nextStep required_validity
        (CalculatorComponent_constructor\<lparr>calculatorForm := filled_form\<rparr>)))) = 4 \<and>
   currentStep
     (nextStep required_validity
       (nextStep required_validity (nextStep required_validity (nextStep required_validity
          (CalculatorComponent_constructor\<lparr>calculatorForm := filled_form\<rparr>))))) = 5"
proof -
  let ?s0 = "CalculatorComponent_constructor\<lparr>calculatorForm := filled_form\<rparr>"
  let ?s1 = "nextStep required_validity ?s0"
  let ?s2 = "nextStep required_validity ?s1"
  let ?s3 = "nextStep required_validity ?s2"
  have form: "calculatorForm (nextStep valid self) = calculatorForm self" for valid self
    by (simp add: nextStep_def validateCurrentStep_def Let_def)
  have v1: "list_all (required_validity filled_form) (getStepFields 1)"
    by (simp add: getStepFields_def required_validity_def required_def filled_form_def
        createForm_def)
  have v2: "list_all (required_validity filled_form) (getStepFields 2)"
    by (simp add: getStepFields_def required_validity_def required_def filled_form_def
        createForm_def)
  have v3: "list_all (required_validity filled_form) (getStepFields 3)"
    by (simp add: getStepFields_def required_validity_def required_def filled_form_def
        createForm_def)
  have s0: "currentStep ?s0 = 1" "calculatorForm ?s0 = filled_form"
    by (simp_all add: CalculatorComponent_constructor_def)
  have s1: "currentStep ?s1 = 2"
    using v1 by (simp add: nextStep_currentStep s0)
  have s2: "currentStep ?s2 = 3"
    using v2 by (simp add: nextStep_currentStep [of _ ?s1] form s0 s1)
  have s3: "currentStep ?s3 = 4"
    using v3 by (simp add: nextStep_currentStep [of _ ?s2] form s0 s2)
  have s4: "currentStep (nextStep required_validity ?s3) = 5"
    by (simp add: nextStep_currentStep [of _ ?s3] s3 getStepFields_def)
  have "reachable required_validity ?s3"
    by (intro reachable.by_nextStep reachable.by_edit reachable.by_constructor)
  with s3 s4 show ?thesis by simp
qed

end
